theory Spec2Isabelle
  imports Main "HOL-Library.Sublist"
begin

section \<open>Python values used by \<open>src/main.py\<close>\<close>

text \<open>
  A Python \<open>str\<close> is modelled by its UTF-8 bytes (\<^typ>\<open>string\<close>). UTF-8 is
  self-synchronising, so the substring test on bytes agrees with the one on code points.

  \<open>str.lower\<close> is Python's own, with the case mapping of Unicode behind it. The
  handlers take it as their first parameter, \<open>lower\<close>, and nothing is assumed of it
  except where a statement says so.
\<close>

text \<open>\<open>s.startswith(p)\<close>.\<close>

fun startswith :: "string \<Rightarrow> string \<Rightarrow> bool" where
  "startswith s [] = True"
| "startswith [] (p # ps) = False"
| "startswith (c # cs) (p # ps) = (c = p \<and> startswith cs ps)"

text \<open>\<open>sub in s\<close> on strings: \<open>sub\<close> occurs in \<open>s\<close> as a contiguous run.\<close>

fun py_in :: "string \<Rightarrow> string \<Rightarrow> bool" where
  "py_in sub [] = (sub = [])"
| "py_in sub (c # cs) = (startswith (c # cs) sub \<or> py_in sub cs)"

text \<open>\<open>str(n)\<close> for an integer, as the f-strings render \<open>user_id\<close>.\<close>

definition digit_char :: "nat \<Rightarrow> char" where
  "digit_char d = char_of (48 + d)"

fun str_nat :: "nat \<Rightarrow> string" where
  "str_nat n = (if n < 10 then [digit_char n] else str_nat (n div 10) @ [digit_char (n mod 10)])"

declare str_nat.simps [simp del]

definition str_int :: "int \<Rightarrow> string" where
  "str_int i = (if i < 0 then CHR ''-'' # str_nat (nat (- i)) else str_nat (nat i))"

text \<open>\<open>f"{x}"\<close> for a value that may be \<open>None\<close> (a nullable \<open>TEXT\<close> column).\<close>

definition str_opt :: "string option \<Rightarrow> string" where
  "str_opt v = (case v of None \<Rightarrow> ''None'' | Some s \<Rightarrow> s)"

text \<open>\<open>sep.join(xs)\<close>.\<close>

fun join :: "string \<Rightarrow> string list \<Rightarrow> string" where
  "join sep [] = []"
| "join sep [x] = x"
| "join sep (x # y # ys) = x @ sep @ join sep (y # ys)"

text \<open>The exceptions that the handlers can meet.\<close>

datatype exn = IndexError | TypeError | AttributeError | UnboundLocalError | DatabaseError

text \<open>
  A local variable of a Python function: reading it before its first assignment raises
  \<open>UnboundLocalError\<close>.
\<close>

datatype 'a local_var = Unbound | Bound 'a

text \<open>How a function body ends: it returns, or an exception leaves it.\<close>

datatype outcome = Returned | Raised exn


section \<open>The Postgres store\<close>

text \<open>
  Table \<open>reparti (chat_id, reparto_nome)\<close> and table
  \<open>membri (chat_id, reparto_nome, user_id, user_name)\<close>, rows in storage order.
  \<open>reachable\<close> says whether \<open>psycopg2.connect\<close> succeeds; \<open>tables_ready\<close> whether
  \<open>setup_database\<close> has created the tables (a statement on a missing table raises).
\<close>

type_synonym reparto_row = "int \<times> string"
type_synonym membro_row = "int \<times> string \<times> int \<times> string option"

record database =
  reachable :: bool
  tables_ready :: bool
  reparti :: "reparto_row list"
  membri :: "membro_row list"

text \<open>
  A connection holds the transaction's working copy of the tables; \<open>commit\<close> writes it
  back, \<open>close\<close> without a commit drops it.
\<close>

record connection =
  tx_ready :: bool
  tx_reparti :: "reparto_row list"
  tx_membri :: "membro_row list"

record cursor =
  rowcount :: int

definition get_db_connection :: "database \<Rightarrow> connection option" where
  "get_db_connection d =
     (if reachable d
      then Some \<lparr>tx_ready = tables_ready d, tx_reparti = reparti d, tx_membri = membri d\<rparr>
      else None)"

text \<open>\<open>conn.cursor()\<close>: a cursor on which nothing has been executed has \<open>rowcount = -1\<close>.\<close>

definition new_cursor :: "connection \<Rightarrow> cursor" where
  "new_cursor c = \<lparr>rowcount = - 1\<rparr>"

definition commit :: "connection \<Rightarrow> database \<Rightarrow> database" where
  "commit c d = d\<lparr>reparti := tx_reparti c, membri := tx_membri c\<rparr>"

text \<open>\<open>INSERT INTO reparti (chat_id, reparto_nome) VALUES (%s, %s) ON CONFLICT DO NOTHING\<close>\<close>

definition insert_reparto :: "connection \<Rightarrow> int \<Rightarrow> string \<Rightarrow> exn + connection \<times> cursor" where
  "insert_reparto c chat nome =
     (if \<not> tx_ready c then Inl DatabaseError
      else if (chat, nome) \<in> set (tx_reparti c) then Inr (c, \<lparr>rowcount = 0\<rparr>)
      else Inr (c\<lparr>tx_reparti := tx_reparti c @ [(chat, nome)]\<rparr>, \<lparr>rowcount = 1\<rparr>))"

text \<open>\<open>SELECT * FROM reparti WHERE chat_id = %s AND reparto_nome = %s\<close>, then \<open>fetchone()\<close>\<close>

definition select_reparto :: "connection \<Rightarrow> int \<Rightarrow> string \<Rightarrow> exn + reparto_row option" where
  "select_reparto c chat nome =
     (if \<not> tx_ready c then Inl DatabaseError
      else Inr (find (\<lambda>r. fst r = chat \<and> snd r = nome) (tx_reparti c)))"

text \<open>
  \<open>INSERT INTO membri (chat_id, reparto_nome, user_id, user_name) VALUES (%s, %s, %s, %s)
  ON CONFLICT DO NOTHING\<close>: a row with the same primary key makes it a no-op; otherwise the
  foreign key on \<open>reparti\<close> is checked.
\<close>

definition same_key :: "int \<Rightarrow> string \<Rightarrow> int \<Rightarrow> membro_row \<Rightarrow> bool" where
  "same_key chat nome uid r = (fst r = chat \<and> fst (snd r) = nome \<and> fst (snd (snd r)) = uid)"

definition insert_membro ::
  "connection \<Rightarrow> int \<Rightarrow> string \<Rightarrow> int \<Rightarrow> string option \<Rightarrow> exn + connection \<times> cursor" where
  "insert_membro c chat nome uid uname =
     (if \<not> tx_ready c then Inl DatabaseError
      else if list_ex (same_key chat nome uid) (tx_membri c) then Inr (c, \<lparr>rowcount = 0\<rparr>)
      else if (chat, nome) \<notin> set (tx_reparti c) then Inl DatabaseError
      else Inr (c\<lparr>tx_membri := tx_membri c @ [(chat, nome, uid, uname)]\<rparr>, \<lparr>rowcount = 1\<rparr>))"

text \<open>\<open>DELETE FROM membri WHERE chat_id = %s AND reparto_nome = %s AND user_id = %s\<close>\<close>

definition delete_membro :: "connection \<Rightarrow> int \<Rightarrow> string \<Rightarrow> int \<Rightarrow> exn + connection \<times> cursor" where
  "delete_membro c chat nome uid =
     (if \<not> tx_ready c then Inl DatabaseError
      else Inr (c\<lparr>tx_membri := filter (\<lambda>r. \<not> same_key chat nome uid r) (tx_membri c)\<rparr>,
                \<lparr>rowcount = int (length (filter (same_key chat nome uid) (tx_membri c)))\<rparr>))"

text \<open>
  \<open>SELECT user_id, user_name FROM membri WHERE chat_id = %s AND reparto_nome = %s\<close>,
  then \<open>fetchall()\<close>
\<close>

definition select_membri :: "connection \<Rightarrow> int \<Rightarrow> string \<Rightarrow> exn + (int \<times> string option) list" where
  "select_membri c chat nome =
     (if \<not> tx_ready c then Inl DatabaseError
      else Inr (map (\<lambda>r. (fst (snd (snd r)), snd (snd (snd r))))
                  (filter (\<lambda>r. fst r = chat \<and> fst (snd r) = nome) (tx_membri c))))"

text \<open>\<open>SELECT reparto_nome FROM reparti WHERE chat_id = %s\<close>, then \<open>fetchall()\<close>\<close>

definition select_reparti_nomi :: "connection \<Rightarrow> int \<Rightarrow> exn + string list" where
  "select_reparti_nomi c chat =
     (if \<not> tx_ready c then Inl DatabaseError
      else Inr (map snd (filter (\<lambda>r. fst r = chat) (tx_reparti c))))"

text \<open>
  \<open>SELECT user_id FROM membri WHERE chat_id = %s AND reparto_nome = %s\<close>, then \<open>fetchall()\<close>
\<close>

definition select_membri_ids :: "connection \<Rightarrow> int \<Rightarrow> string \<Rightarrow> exn + int list" where
  "select_membri_ids c chat nome =
     (if \<not> tx_ready c then Inl DatabaseError
      else Inr (map (\<lambda>r. fst (snd (snd r)))
                  (filter (\<lambda>r. fst r = chat \<and> fst (snd r) = nome) (tx_membri c))))"


section \<open>The chat platform\<close>

record user =
  user_id :: int
  full_name :: string

text \<open>
  \<open>reply_to_message\<close> keeps the \<open>from_user\<close> of the message replied to, the only part of
  it that the handlers read.
\<close>

record message =
  chat_id :: int
  chat_type :: string
  from_user :: user
  msg_text :: "string option"
  reply_to_message :: "user option"

record update =
  upd_message :: "message option"

text \<open>
  \<open>context.args\<close> is the list of the command's arguments (\<open>None\<close> outside a command), and
  \<open>context.bot.get_chat_administrators(chat_id)\<close> answers with the identifiers of the
  chat's administrators, or fails (\<open>None\<close>).
\<close>

record callback_context =
  args :: "string list option"
  get_chat_administrators :: "int \<Rightarrow> int list option"

text \<open>
  A reply sent with \<open>update.message.reply_text\<close>: its text and its \<open>parse_mode\<close>. The
  state keeps the replies in the order in which they were sent. Sending is taken to
  succeed, and what the handlers write to the log is not part of the state.
\<close>

type_synonym reply = "string \<times> string option"

record bot_state =
  store :: database
  outbox :: "reply list"

definition reply_text :: "string \<Rightarrow> bot_state \<Rightarrow> bot_state" where
  "reply_text s st = st\<lparr>outbox := outbox st @ [(s, None)]\<rparr>"

definition reply_text_markdown :: "string \<Rightarrow> bot_state \<Rightarrow> bot_state" where
  "reply_text_markdown s st = st\<lparr>outbox := outbox st @ [(s, Some ''Markdown'')]\<rparr>"


section \<open>Helper: \<open>is_admin\<close>\<close>

definition msg_cannot_verify :: string where
  "msg_cannot_verify =
     ''Non riesco a verificare i tuoi permessi. Assicurati che io sia admin nel gruppo.''"

definition is_admin :: "message \<Rightarrow> callback_context \<Rightarrow> bot_state \<Rightarrow> bool \<times> bot_state" where
  "is_admin m ctx st =
     (if chat_type m = ''private'' then (True, st)
      else (case get_chat_administrators ctx (chat_id m) of
              Some admin_ids \<Rightarrow> (user_id (from_user m) \<in> set admin_ids, st)
            | None \<Rightarrow> (False, reply_text msg_cannot_verify st)))"


section \<open>Command handlers\<close>

text \<open>The fixed texts of the replies; bytes beyond ASCII are written as UTF-8.\<close>

definition nl :: string where
  "nl = [CHR 0x0A]"

definition msg_solo_admin :: string where
  "msg_solo_admin =
     ''Questo comando pu'' @ [CHR 0xC3, CHR 0xB2] @ '' essere usato solo dagli admin del gruppo.''"

definition msg_errore :: string where
  "msg_errore = ''Si '' @ [CHR 0xC3, CHR 0xA8] @ '' verificato un errore.''"

text \<open>
  The three \<open>try\<close> statements that follow share their \<open>except\<close> clauses
  (\<open>except (IndexError, TypeError)\<close> replies with the usage text, \<open>except Exception\<close> with
  the generic one) and all four share the \<open>finally\<close> clause \<open>if conn: conn.close()\<close>,
  which reads the local variable \<open>conn\<close>. An exception raised by \<open>finally\<close> replaces
  the pending outcome. Closing a connection drops what was not committed, so it leaves
  the store as it is.
\<close>

definition except_clauses :: "string \<Rightarrow> outcome \<Rightarrow> bot_state \<Rightarrow> outcome \<times> bot_state" where
  "except_clauses uso out st =
     (case out of
        Returned \<Rightarrow> (Returned, st)
      | Raised e \<Rightarrow>
          if e = IndexError \<or> e = TypeError then (Returned, reply_text uso st)
          else (Returned, reply_text msg_errore st))"

definition finally_close :: "connection option local_var \<Rightarrow> outcome \<Rightarrow> outcome" where
  "finally_close conn out =
     (case conn of
        Unbound \<Rightarrow> Raised UnboundLocalError
      | Bound None \<Rightarrow> out
      | Bound (Some c) \<Rightarrow> out)"

subsection \<open>\<open>crea_reparto\<close>\<close>

definition msg_formato_errato :: string where
  "msg_formato_errato =
     ''Formato errato. Il nome del reparto deve iniziare con @ (es: /crea_reparto @aero)''"

definition msg_creato :: "string \<Rightarrow> string" where
  "msg_creato reparto_nome = ''Reparto '' @ reparto_nome @ '' creato con successo!''"

definition msg_uso_crea :: string where
  "msg_uso_crea = ''Uso: /crea_reparto @nome_reparto''"

definition msg_errore_crea :: "string \<Rightarrow> string" where
  "msg_errore_crea reparto_nome =
     ''Errore: il reparto '' @ reparto_nome @ '' esiste gi'' @ [CHR 0xC3, CHR 0xA0]
       @ '' o c'' @ [CHR 0x27, CHR 0xC3, CHR 0xA8] @ '' stato un problema.''"

text \<open>The body of the \<open>try\<close>, with the local variables \<open>reparto_nome\<close> and \<open>conn\<close> at its end.\<close>

definition crea_reparto_try ::
  "(string \<Rightarrow> string) \<Rightarrow> message \<Rightarrow> callback_context \<Rightarrow> bot_state
     \<Rightarrow> outcome \<times> string local_var \<times> connection option local_var \<times> bot_state" where
  "crea_reparto_try lower m ctx st =
     (case args ctx of
        None \<Rightarrow> (Raised TypeError, Unbound, Unbound, st)
      | Some [] \<Rightarrow> (Raised IndexError, Unbound, Unbound, st)
      | Some (a # rest) \<Rightarrow>
          (let reparto_nome = lower a in
           if \<not> startswith reparto_nome ''@''
           then (Returned, Bound reparto_nome, Unbound, reply_text msg_formato_errato st)
           else
             (let chat = chat_id m; conn = get_db_connection (store st) in
              case conn of
                None \<Rightarrow> (Raised AttributeError, Bound reparto_nome, Bound conn, st)
              | Some c \<Rightarrow>
                  (case insert_reparto c chat reparto_nome of
                     Inl e \<Rightarrow> (Raised e, Bound reparto_nome, Bound conn, st)
                   | Inr (c', cur) \<Rightarrow>
                       (Returned, Bound reparto_nome, Bound conn,
                        reply_text (msg_creato reparto_nome)
                          (st\<lparr>store := commit c' (store st)\<rparr>))))))"

definition crea_reparto_except ::
  "outcome \<Rightarrow> string local_var \<Rightarrow> bot_state \<Rightarrow> outcome \<times> bot_state" where
  "crea_reparto_except out reparto_nome st =
     (case out of
        Returned \<Rightarrow> (Returned, st)
      | Raised e \<Rightarrow>
          if e = IndexError \<or> e = TypeError then (Returned, reply_text msg_uso_crea st)
          else (case reparto_nome of
                  Unbound \<Rightarrow> (Raised UnboundLocalError, st)
                | Bound n \<Rightarrow> (Returned, reply_text (msg_errore_crea n) st)))"

text \<open>
  An update without a message makes \<open>is_admin\<close> raise \<open>AttributeError\<close> on
  \<open>update.message.chat\<close>, outside every \<open>try\<close>.
\<close>

definition crea_reparto :: "(string \<Rightarrow> string) \<Rightarrow> update \<Rightarrow> callback_context \<Rightarrow> bot_state \<Rightarrow> outcome \<times> bot_state" where
  "crea_reparto lower u ctx st =
     (case upd_message u of
        None \<Rightarrow> (Raised AttributeError, st)
      | Some m \<Rightarrow>
          (case is_admin m ctx st of
             (ok, st1) \<Rightarrow>
               if \<not> ok then (Returned, reply_text msg_solo_admin st1)
               else
                 (case crea_reparto_try lower m ctx st1 of
                    (out, reparto_nome, conn, st2) \<Rightarrow>
                      (case crea_reparto_except out reparto_nome st2 of
                         (out', st3) \<Rightarrow> (finally_close conn out', st3)))))"

subsection \<open>\<open>aggiungi_membro\<close>\<close>

definition msg_rispondi_aggiungi :: string where
  "msg_rispondi_aggiungi = ''Devi rispondere al messaggio di un utente per aggiungerlo.''"

definition msg_non_esiste :: "string \<Rightarrow> string" where
  "msg_non_esiste reparto_nome =
     ''Il reparto '' @ reparto_nome @ '' non esiste. Crealo prima con /crea_reparto ''
       @ reparto_nome"

definition msg_aggiunto :: "string \<Rightarrow> string \<Rightarrow> string" where
  "msg_aggiunto nome_utente reparto_nome =
     ''Utente '' @ nome_utente @ '' aggiunto a '' @ reparto_nome @ ''.''"

definition msg_uso_aggiungi :: string where
  "msg_uso_aggiungi = ''Uso: Rispondi a un utente con /aggiungi_membro @nome_reparto''"

definition aggiungi_membro_try ::
  "(string \<Rightarrow> string) \<Rightarrow> message \<Rightarrow> user \<Rightarrow> callback_context \<Rightarrow> bot_state
     \<Rightarrow> outcome \<times> connection option local_var \<times> bot_state" where
  "aggiungi_membro_try lower m utente_da_aggiungere ctx st =
     (case args ctx of
        None \<Rightarrow> (Raised TypeError, Unbound, st)
      | Some [] \<Rightarrow> (Raised IndexError, Unbound, st)
      | Some (a # rest) \<Rightarrow>
          (let reparto_nome = lower a; chat = chat_id m;
               conn = get_db_connection (store st) in
           case conn of
             None \<Rightarrow> (Raised AttributeError, Bound conn, st)
           | Some c \<Rightarrow>
               (case select_reparto c chat reparto_nome of
                  Inl e \<Rightarrow> (Raised e, Bound conn, st)
                | Inr None \<Rightarrow> (Returned, Bound conn, reply_text (msg_non_esiste reparto_nome) st)
                | Inr (Some row) \<Rightarrow>
                    (case insert_membro c chat reparto_nome (user_id utente_da_aggiungere)
                            (Some (full_name utente_da_aggiungere)) of
                       Inl e \<Rightarrow> (Raised e, Bound conn, st)
                     | Inr (c', cur) \<Rightarrow>
                         (Returned, Bound conn,
                          reply_text (msg_aggiunto (full_name utente_da_aggiungere) reparto_nome)
                            (st\<lparr>store := commit c' (store st)\<rparr>))))))"

definition aggiungi_membro ::
  "(string \<Rightarrow> string) \<Rightarrow> update \<Rightarrow> callback_context \<Rightarrow> bot_state \<Rightarrow> outcome \<times> bot_state" where
  "aggiungi_membro lower u ctx st =
     (case upd_message u of
        None \<Rightarrow> (Raised AttributeError, st)
      | Some m \<Rightarrow>
          (case is_admin m ctx st of
             (ok, st1) \<Rightarrow>
               if \<not> ok then (Returned, reply_text msg_solo_admin st1)
               else
                 (case reply_to_message m of
                    None \<Rightarrow> (Returned, reply_text msg_rispondi_aggiungi st1)
                  | Some utente \<Rightarrow>
                      (case aggiungi_membro_try lower m utente ctx st1 of
                         (out, conn, st2) \<Rightarrow>
                           (case except_clauses msg_uso_aggiungi out st2 of
                              (out', st3) \<Rightarrow> (finally_close conn out', st3))))))"

subsection \<open>\<open>rimuovi_membro\<close>\<close>

definition msg_rispondi_rimuovi :: string where
  "msg_rispondi_rimuovi = ''Devi rispondere al messaggio di un utente per rimuoverlo.''"

definition msg_non_era :: "string \<Rightarrow> string \<Rightarrow> string" where
  "msg_non_era nome_utente reparto_nome =
     ''L'' @ [CHR 0x27] @ ''utente '' @ nome_utente @ '' non era in '' @ reparto_nome @ ''.''"

definition msg_rimosso :: "string \<Rightarrow> string \<Rightarrow> string" where
  "msg_rimosso nome_utente reparto_nome =
     ''Utente '' @ nome_utente @ '' rimosso da '' @ reparto_nome @ ''.''"

definition msg_uso_rimuovi :: string where
  "msg_uso_rimuovi = ''Uso: Rispondi a un utente con /rimuovi_membro @nome_reparto''"

text \<open>
  After the commit the source tests \<open>conn.cursor().rowcount == 0\<close>: the row count of a
  cursor opened then, not of \<open>cur\<close>, the cursor that ran the \<open>DELETE\<close>.
\<close>

definition rimuovi_membro_try ::
  "(string \<Rightarrow> string) \<Rightarrow> message \<Rightarrow> user \<Rightarrow> callback_context \<Rightarrow> bot_state
     \<Rightarrow> outcome \<times> connection option local_var \<times> bot_state" where
  "rimuovi_membro_try lower m utente_da_rimuovere ctx st =
     (case args ctx of
        None \<Rightarrow> (Raised TypeError, Unbound, st)
      | Some [] \<Rightarrow> (Raised IndexError, Unbound, st)
      | Some (a # rest) \<Rightarrow>
          (let reparto_nome = lower a; chat = chat_id m;
               conn = get_db_connection (store st) in
           case conn of
             None \<Rightarrow> (Raised AttributeError, Bound conn, st)
           | Some c \<Rightarrow>
               (case delete_membro c chat reparto_nome (user_id utente_da_rimuovere) of
                  Inl e \<Rightarrow> (Raised e, Bound conn, st)
                | Inr (c', cur) \<Rightarrow>
                    (let st' = st\<lparr>store := commit c' (store st)\<rparr> in
                     if rowcount (new_cursor c') = 0
                     then (Returned, Bound conn,
                           reply_text (msg_non_era (full_name utente_da_rimuovere) reparto_nome) st')
                     else (Returned, Bound conn,
                           reply_text (msg_rimosso (full_name utente_da_rimuovere) reparto_nome) st')))))"

definition rimuovi_membro ::
  "(string \<Rightarrow> string) \<Rightarrow> update \<Rightarrow> callback_context \<Rightarrow> bot_state \<Rightarrow> outcome \<times> bot_state" where
  "rimuovi_membro lower u ctx st =
     (case upd_message u of
        None \<Rightarrow> (Raised AttributeError, st)
      | Some m \<Rightarrow>
          (case is_admin m ctx st of
             (ok, st1) \<Rightarrow>
               if \<not> ok then (Returned, reply_text msg_solo_admin st1)
               else
                 (case reply_to_message m of
                    None \<Rightarrow> (Returned, reply_text msg_rispondi_rimuovi st1)
                  | Some utente \<Rightarrow>
                      (case rimuovi_membro_try lower m utente ctx st1 of
                         (out, conn, st2) \<Rightarrow>
                           (case except_clauses msg_uso_rimuovi out st2 of
                              (out', st3) \<Rightarrow> (finally_close conn out', st3))))))"

subsection \<open>\<open>lista_reparto\<close>\<close>

definition msg_nessun_membro :: "string \<Rightarrow> string" where
  "msg_nessun_membro reparto_nome =
     ''Nessun membro trovato per il reparto '' @ reparto_nome @ ''.''"

definition msg_uso_lista :: string where
  "msg_uso_lista = ''Uso: /lista_reparto @nome_reparto''"

text \<open>
  The loop \<open>for user_id, user_name in membri: messaggio += ...\<close>, with \<open>messaggio\<close> as
  the accumulator.
\<close>

fun righe_membri :: "string \<Rightarrow> (int \<times> string option) list \<Rightarrow> string" where
  "righe_membri messaggio [] = messaggio"
| "righe_membri messaggio ((uid, uname) # rest) =
     righe_membri (messaggio @ ''- '' @ str_opt uname @ '' ([ID: '' @ str_int uid @ ''])'' @ nl) rest"

definition lista_reparto_try ::
  "(string \<Rightarrow> string) \<Rightarrow> message \<Rightarrow> callback_context \<Rightarrow> bot_state
     \<Rightarrow> outcome \<times> connection option local_var \<times> bot_state" where
  "lista_reparto_try lower m ctx st =
     (case args ctx of
        None \<Rightarrow> (Raised TypeError, Unbound, st)
      | Some [] \<Rightarrow> (Raised IndexError, Unbound, st)
      | Some (a # rest) \<Rightarrow>
          (let reparto_nome = lower a; chat = chat_id m;
               conn = get_db_connection (store st) in
           case conn of
             None \<Rightarrow> (Raised AttributeError, Bound conn, st)
           | Some c \<Rightarrow>
               (case select_membri c chat reparto_nome of
                  Inl e \<Rightarrow> (Raised e, Bound conn, st)
                | Inr membri_trovati \<Rightarrow>
                    if membri_trovati = []
                    then (Returned, Bound conn, reply_text (msg_nessun_membro reparto_nome) st)
                    else
                      (let messaggio = ''Membri del reparto '' @ reparto_nome @ '':'' @ nl in
                       (Returned, Bound conn,
                        reply_text (righe_membri messaggio membri_trovati) st)))))"

text \<open>
  \<open>lista_reparto\<close> does not call \<open>is_admin\<close>. On an update without a message every path
  raises inside the \<open>try\<close> or inside an \<open>except\<close> clause (\<open>update.message\<close> is \<open>None\<close>)
  before \<open>conn\<close> is assigned, and the \<open>finally\<close> clause then raises \<open>UnboundLocalError\<close>.
\<close>

definition lista_reparto ::
  "(string \<Rightarrow> string) \<Rightarrow> update \<Rightarrow> callback_context \<Rightarrow> bot_state \<Rightarrow> outcome \<times> bot_state" where
  "lista_reparto lower u ctx st =
     (case upd_message u of
        None \<Rightarrow> (Raised UnboundLocalError, st)
      | Some m \<Rightarrow>
          (case lista_reparto_try lower m ctx st of
             (out, conn, st2) \<Rightarrow>
               (case except_clauses msg_uso_lista out st2 of
                  (out', st3) \<Rightarrow> (finally_close conn out', st3))))"


section \<open>The tag scanner: \<open>gestore_messaggi\<close>\<close>

text \<open>
  The loop over \<open>reparti_registrati\<close> with its \<open>break\<close>: the result is \<open>reparto_da_taggare\<close>,
  \<open>None\<close> when the loop ends without a match.
\<close>

fun scan_reparti :: "string list \<Rightarrow> string \<Rightarrow> string option" where
  "scan_reparti [] testo_messaggio = None"
| "scan_reparti (reparto_nome # rest) testo_messaggio =
     (if py_in reparto_nome testo_messaggio then Some reparto_nome
      else scan_reparti rest testo_messaggio)"

definition mention :: "int \<Rightarrow> string" where
  "mention uid =
     ''['' @ [CHR 0xE2, CHR 0x80, CHR 0x8B] @ ''](tg://user?id='' @ str_int uid @ '')''"

text \<open>The loop \<open>for (user_id,) in membri_da_taggare: tags.append(...)\<close>.\<close>

fun build_tags :: "string list \<Rightarrow> int list \<Rightarrow> string list" where
  "build_tags tags [] = tags"
| "build_tags tags (uid # rest) = build_tags (tags @ [mention uid]) rest"

definition msg_chiamata :: "string \<Rightarrow> string list \<Rightarrow> string" where
  "msg_chiamata reparto tags =
     [CHR 0xF0, CHR 0x9F, CHR 0x94, CHR 0x94] @ '' Chiamata per '' @ reparto @ '':'' @ nl
       @ join '' '' tags"

text \<open>
  The body of the \<open>try\<close>. \<open>if reparto_da_taggare:\<close> is false for \<open>None\<close> and for the empty
  string, \<open>if membri_da_taggare:\<close> for the empty list.
\<close>

definition gestore_messaggi_try ::
  "connection \<Rightarrow> int \<Rightarrow> string \<Rightarrow> bot_state \<Rightarrow> outcome \<times> bot_state" where
  "gestore_messaggi_try conn chat testo_messaggio st =
     (case select_reparti_nomi conn chat of
        Inl e \<Rightarrow> (Raised e, st)
      | Inr reparti_registrati \<Rightarrow>
          (case scan_reparti reparti_registrati testo_messaggio of
             None \<Rightarrow> (Returned, st)
           | Some reparto_da_taggare \<Rightarrow>
               if reparto_da_taggare = [] then (Returned, st)
               else
                 (case select_membri_ids conn chat reparto_da_taggare of
                    Inl e \<Rightarrow> (Raised e, st)
                  | Inr membri_da_taggare \<Rightarrow>
                      if membri_da_taggare = [] then (Returned, st)
                      else
                        (let tags = build_tags [] membri_da_taggare in
                         (Returned,
                          reply_text_markdown (msg_chiamata reparto_da_taggare tags) st)))))"

text \<open>
  \<open>except Exception\<close> logs and swallows; \<open>finally\<close> closes the connection, which is bound
  here (it was assigned before the \<open>try\<close>).
\<close>

definition gestore_messaggi ::
  "(string \<Rightarrow> string) \<Rightarrow> update \<Rightarrow> callback_context \<Rightarrow> bot_state \<Rightarrow> outcome \<times> bot_state" where
  "gestore_messaggi lower u ctx st =
     (case upd_message u of
        None \<Rightarrow> (Returned, st)
      | Some m \<Rightarrow>
          (case msg_text m of
             None \<Rightarrow> (Returned, st)
           | Some t \<Rightarrow>
               if t = [] then (Returned, st)
               else
                 (let chat = chat_id m; testo_messaggio = lower t in
                  case get_db_connection (store st) of
                    None \<Rightarrow> (Returned, st)
                  | Some conn \<Rightarrow>
                      (case gestore_messaggi_try conn chat testo_messaggio st of
                         (out, st') \<Rightarrow> (Returned, st')))))"


section \<open>Views of the store used in the statements\<close>

text \<open>The names registered for a chat and the member identifiers of a department, in storage order.\<close>

definition reparti_of :: "database \<Rightarrow> int \<Rightarrow> string list" where
  "reparti_of d chat = map snd (filter (\<lambda>r. fst r = chat) (reparti d))"

definition membri_ids_of :: "database \<Rightarrow> int \<Rightarrow> string \<Rightarrow> int list" where
  "membri_ids_of d chat nome =
     map (\<lambda>r. fst (snd (snd r))) (filter (\<lambda>r. fst r = chat \<and> fst (snd r) = nome) (membri d))"

definition membri_of :: "database \<Rightarrow> int \<Rightarrow> string \<Rightarrow> (int \<times> string option) list" where
  "membri_of d chat nome =
     map (\<lambda>r. (fst (snd (snd r)), snd (snd (snd r))))
       (filter (\<lambda>r. fst r = chat \<and> fst (snd r) = nome) (membri d))"


section \<open>The member line as the specification words it\<close>

text \<open>
  The specification gives the line of a member in the reply of the list command as
  \<open>- <displayName> (ID: <userId>)\<close>. This definition follows those words, for comparison
  with what \<open>righe_membri\<close> builds.
\<close>

definition spec_riga :: "string \<Rightarrow> int \<Rightarrow> string" where
  "spec_riga display_name uid = ''- '' @ display_name @ '' (ID: '' @ str_int uid @ '')''"


section \<open>Sample inputs\<close>

text \<open>
  Concrete updates, contexts and stores, on which the theorems below are instantiated.
  The sample texts are ASCII, and on ASCII text \<open>str.lower\<close> maps the letters \<open>A\<close>..\<open>Z\<close>
  to \<open>a\<close>..\<open>z\<close> and keeps every other character: \<open>ascii_lower\<close> is that function, the
  value given to the parameter \<open>lower\<close> on the sample inputs.
\<close>

definition ascii_lower_char :: "char \<Rightarrow> char" where
  "ascii_lower_char c =
     (let n = (of_char c :: nat) in if 65 \<le> n \<and> n \<le> 90 then char_of (n + 32) else c)"

definition ascii_lower :: "string \<Rightarrow> string" where
  "ascii_lower s = map ascii_lower_char s"

definition alice :: user where
  "alice = \<lparr>user_id = 5, full_name = ''Alice''\<rparr>"

definition bob :: user where
  "bob = \<lparr>user_id = 42, full_name = ''Bob''\<rparr>"

definition carl :: user where
  "carl = \<lparr>user_id = 99, full_name = ''Carl''\<rparr>"

definition sample_db :: database where
  "sample_db =
     \<lparr>reachable = True, tables_ready = True,
      reparti = [(1, ''@aero''), (1, ''@naval''), (2, ''@staff'')],
      membri = [(1, ''@aero'', 42, Some ''Bob''), (1, ''@aero'', 7, Some ''Eve'')]\<rparr>"

definition sample_state :: bot_state where
  "sample_state = \<lparr>store = sample_db, outbox = []\<rparr>"

text \<open>A store in which the first department of chat 1 has no member and the second has one.\<close>

definition naval_first_state :: bot_state where
  "naval_first_state =
     \<lparr>store = \<lparr>reachable = True, tables_ready = True,
                reparti = [(1, ''@naval''), (1, ''@aero'')],
                membri = [(1, ''@aero'', 42, Some ''Bob'')]\<rparr>,
      outbox = []\<rparr>"

definition sample_message :: "string \<Rightarrow> user option \<Rightarrow> message" where
  "sample_message t r =
     \<lparr>chat_id = 1, chat_type = ''private'', from_user = alice, msg_text = Some t,
      reply_to_message = r\<rparr>"

definition sample_update :: "string \<Rightarrow> user option \<Rightarrow> update" where
  "sample_update t r = \<lparr>upd_message = Some (sample_message t r)\<rparr>"

definition sample_context :: "string list option \<Rightarrow> callback_context" where
  "sample_context a = \<lparr>args = a, get_chat_administrators = (\<lambda>c. None)\<rparr>"


section \<open>Facts about the string functions\<close>

lemmas char_eval = char_of_def bit_Suc_0_iff

lemmas ascii_lower_eval = ascii_lower_def ascii_lower_char_def char_eval

lemma ascii_lower_char_idem: "ascii_lower_char (ascii_lower_char c) = ascii_lower_char c"
  by (simp add: ascii_lower_char_def Let_def)

lemma ascii_lower_idem: "ascii_lower (ascii_lower s) = ascii_lower s"
  by (simp add: ascii_lower_def ascii_lower_char_idem)

lemma str_int_42: "str_int 42 = ''42''"
  by (simp add: str_int_def str_nat.simps digit_char_def char_eval)

lemma str_int_7: "str_int 7 = ''7''"
  by (simp add: str_int_def str_nat.simps digit_char_def char_eval)

lemma startswith_prefix: "startswith s p \<longleftrightarrow> prefix p s"
  by (induction s p rule: startswith.induct) auto

lemma py_in_sublist: "py_in sub s \<longleftrightarrow> sublist sub s"
proof (induction s)
  case Nil
  show ?case by simp
next
  case (Cons c cs)
  show ?case
  proof (cases sub)
    case Nil
    then show ?thesis by simp
  next
    case (Cons x xs)
    with Cons.IH show ?thesis
      by (simp add: startswith_prefix sublist_Cons_right)
  qed
qed


section \<open>Facts about the tag scanner\<close>

lemmas sample_defs = alice_def bob_def carl_def sample_db_def sample_state_def
  sample_message_def sample_update_def sample_context_def naval_first_state_def

lemma build_tags_map: "build_tags tags ids = tags @ map mention ids"
  by (induction ids arbitrary: tags) simp_all

lemma scan_reparti_find: "scan_reparti nomi testo = find (\<lambda>n. sublist n testo) nomi"
  by (induction nomi) (simp_all add: py_in_sublist)

lemma scan_reparti_None:
  "scan_reparti nomi testo = None \<longleftrightarrow> (\<forall>n \<in> set nomi. \<not> sublist n testo)"
  by (auto simp add: scan_reparti_find find_None_iff)

lemma scan_reparti_Some:
  "scan_reparti nomi testo = Some d \<longleftrightarrow>
     (\<exists>i < length nomi. nomi ! i = d \<and> sublist d testo \<and> (\<forall>j < i. \<not> sublist (nomi ! j) testo))"
  by (auto simp add: scan_reparti_find find_Some_iff)

lemma gestore_messaggi_text:
  assumes "upd_message u = Some m" "msg_text m = Some t"
  shows "gestore_messaggi lower u ctx st =
    (Returned,
     if t = [] \<or> \<not> reachable (store st) \<or> \<not> tables_ready (store st) then st
     else (case scan_reparti (reparti_of (store st) (chat_id m)) (lower t) of
             None \<Rightarrow> st
           | Some d \<Rightarrow>
               if d = [] \<or> membri_ids_of (store st) (chat_id m) d = [] then st
               else reply_text_markdown
                      (msg_chiamata d (map mention (membri_ids_of (store st) (chat_id m) d))) st))"
  using assms
  by (simp add: gestore_messaggi_def gestore_messaggi_try_def get_db_connection_def
        select_reparti_nomi_def select_membri_ids_def reparti_of_def membri_ids_of_def
        build_tags_map Let_def split: option.splits)

lemmas scanner_eval = gestore_messaggi_def gestore_messaggi_try_def get_db_connection_def
  select_reparti_nomi_def select_membri_ids_def reparti_of_def membri_ids_of_def
  reply_text_markdown_def ascii_lower_eval


section \<open>The authorization check\<close>

text \<open>
  C9. \<open>is_admin\<close> authorizes every invocation in a private chat and sends nothing; in any
  other chat, when the administrator query answers, it authorizes exactly the users whose
  identifier is in the answer and sends nothing; when the query fails it refuses and sends
  the message that asks to make the bot an admin.
\<close>

theorem is_admin_policy:
  "(chat_type m = ''private'' \<longrightarrow> is_admin m ctx st = (True, st)) \<and>
   (\<forall>admin_ids. chat_type m \<noteq> ''private''
        \<and> get_chat_administrators ctx (chat_id m) = Some admin_ids \<longrightarrow>
      is_admin m ctx st = (user_id (from_user m) \<in> set admin_ids, st)) \<and>
   (chat_type m \<noteq> ''private'' \<and> get_chat_administrators ctx (chat_id m) = None \<longrightarrow>
      fst (is_admin m ctx st) = False \<and>
      outbox (snd (is_admin m ctx st)) = outbox st @
        [(''Non riesco a verificare i tuoi permessi. Assicurati che io sia admin nel gruppo.'',
          None)] \<and>
      store (snd (is_admin m ctx st)) = store st)"
  by (simp add: is_admin_def reply_text_def msg_cannot_verify_def)

theorem is_admin_policy_witness:
  "is_admin \<lparr>chat_id = 1, chat_type = ''private'',
             from_user = \<lparr>user_id = 5, full_name = ''Alice''\<rparr>,
             msg_text = None, reply_to_message = None\<rparr>
     \<lparr>args = None, get_chat_administrators = (\<lambda>c. None)\<rparr>
     \<lparr>store = \<lparr>reachable = True, tables_ready = True, reparti = [], membri = []\<rparr>, outbox = []\<rparr>
   = (True, \<lparr>store = \<lparr>reachable = True, tables_ready = True, reparti = [], membri = []\<rparr>,
             outbox = []\<rparr>) \<and>
   is_admin \<lparr>chat_id = 1, chat_type = ''supergroup'',
             from_user = \<lparr>user_id = 5, full_name = ''Alice''\<rparr>,
             msg_text = None, reply_to_message = None\<rparr>
     \<lparr>args = None, get_chat_administrators = (\<lambda>c. Some [3, 5])\<rparr>
     \<lparr>store = \<lparr>reachable = True, tables_ready = True, reparti = [], membri = []\<rparr>, outbox = []\<rparr>
   = (True, \<lparr>store = \<lparr>reachable = True, tables_ready = True, reparti = [], membri = []\<rparr>,
             outbox = []\<rparr>) \<and>
   is_admin \<lparr>chat_id = 1, chat_type = ''supergroup'',
             from_user = \<lparr>user_id = 5, full_name = ''Alice''\<rparr>,
             msg_text = None, reply_to_message = None\<rparr>
     \<lparr>args = None, get_chat_administrators = (\<lambda>c. Some [3, 4])\<rparr>
     \<lparr>store = \<lparr>reachable = True, tables_ready = True, reparti = [], membri = []\<rparr>, outbox = []\<rparr>
   = (False, \<lparr>store = \<lparr>reachable = True, tables_ready = True, reparti = [], membri = []\<rparr>,
              outbox = []\<rparr>) \<and>
   fst (is_admin \<lparr>chat_id = 1, chat_type = ''group'',
             from_user = \<lparr>user_id = 5, full_name = ''Alice''\<rparr>,
             msg_text = None, reply_to_message = None\<rparr>
     \<lparr>args = None, get_chat_administrators = (\<lambda>c. None)\<rparr>
     \<lparr>store = \<lparr>reachable = True, tables_ready = True, reparti = [], membri = []\<rparr>, outbox = []\<rparr>)
   = False"
  using
    is_admin_policy [of "\<lparr>chat_id = 1, chat_type = ''private'',
             from_user = \<lparr>user_id = 5, full_name = ''Alice''\<rparr>,
             msg_text = None, reply_to_message = None\<rparr>"
       "\<lparr>args = None, get_chat_administrators = (\<lambda>c. None)\<rparr>"
       "\<lparr>store = \<lparr>reachable = True, tables_ready = True, reparti = [], membri = []\<rparr>, outbox = []\<rparr>"]
    is_admin_policy [of "\<lparr>chat_id = 1, chat_type = ''supergroup'',
             from_user = \<lparr>user_id = 5, full_name = ''Alice''\<rparr>,
             msg_text = None, reply_to_message = None\<rparr>"
       "\<lparr>args = None, get_chat_administrators = (\<lambda>c. Some [3, 5])\<rparr>"
       "\<lparr>store = \<lparr>reachable = True, tables_ready = True, reparti = [], membri = []\<rparr>, outbox = []\<rparr>"]
    is_admin_policy [of "\<lparr>chat_id = 1, chat_type = ''supergroup'',
             from_user = \<lparr>user_id = 5, full_name = ''Alice''\<rparr>,
             msg_text = None, reply_to_message = None\<rparr>"
       "\<lparr>args = None, get_chat_administrators = (\<lambda>c. Some [3, 4])\<rparr>"
       "\<lparr>store = \<lparr>reachable = True, tables_ready = True, reparti = [], membri = []\<rparr>, outbox = []\<rparr>"]
    is_admin_policy [of "\<lparr>chat_id = 1, chat_type = ''group'',
             from_user = \<lparr>user_id = 5, full_name = ''Alice''\<rparr>,
             msg_text = None, reply_to_message = None\<rparr>"
       "\<lparr>args = None, get_chat_administrators = (\<lambda>c. None)\<rparr>"
       "\<lparr>store = \<lparr>reachable = True, tables_ready = True, reparti = [], membri = []\<rparr>, outbox = []\<rparr>"]
  by simp


section \<open>The tag scanner leaves the store alone\<close>

lemma gestore_messaggi_try_store:
  "store (snd (gestore_messaggi_try conn chat testo st)) = store st"
  by (simp add: gestore_messaggi_try_def reply_text_markdown_def Let_def
        split: sum.splits option.splits)

text \<open>
  C10. Whatever the update, the context and the state, \<open>gestore_messaggi\<close> returns with
  the store (both tables, and the flags of the database) exactly as it was: it runs
  \<open>SELECT\<close> statements only and never commits.
\<close>

theorem gestore_messaggi_store_unchanged:
  "store (snd (gestore_messaggi lower u ctx st)) = store st"
proof (cases "upd_message u")
  case None
  then show ?thesis by (simp add: gestore_messaggi_def)
next
  case (Some m)
  show ?thesis
  proof (cases "msg_text m")
    case None
    with Some show ?thesis by (simp add: gestore_messaggi_def)
  next
    case (Some t)
    show ?thesis
    proof (cases "get_db_connection (store st)")
      case None
      with \<open>upd_message u = Some m\<close> Some show ?thesis
        by (simp add: gestore_messaggi_def)
    next
      case (Some conn)
      have "store (snd (gestore_messaggi_try conn (chat_id m) (lower t) st)) = store st"
        by (rule gestore_messaggi_try_store)
      with \<open>upd_message u = Some m\<close> \<open>msg_text m = Some t\<close> Some show ?thesis
        by (simp add: gestore_messaggi_def Let_def case_prod_beta)
    qed
  qed
qed

section \<open>First match wins\<close>

lemma msg_chiamata_text:
  "msg_chiamata d (map mention ids) =
     [CHR 0xF0, CHR 0x9F, CHR 0x94, CHR 0x94] @ '' Chiamata per '' @ d @ '':'' @ [CHR 0x0A] @
       join '' '' (map (\<lambda>uid. ''['' @ [CHR 0xE2, CHR 0x80, CHR 0x8B] @ ''](tg://user?id=''
                            @ str_int uid @ '')'') ids)"
  by (simp add: msg_chiamata_def mention_def [abs_def] nl_def)

text \<open>
  C4, as stated, fails. In chat 1 the store returns \<open>@naval\<close> and then \<open>@aero\<close>; \<open>@naval\<close>
  has no member, \<open>@aero\<close> has one. Both names occur in the text, and \<open>gestore_messaggi\<close>
  returns with nothing sent: the scanner selects \<open>@naval\<close>, finds no member, and does not
  go on to \<open>@aero\<close>. No department is notified, not exactly one.
\<close>

theorem tag_scanner_first_match_counterexample:
  "reparti_of (store naval_first_state) 1 = [''@naval'', ''@aero''] \<and>
   py_in ''@naval'' (ascii_lower ''serve @aero e @naval subito'') \<and>
   py_in ''@aero'' (ascii_lower ''serve @aero e @naval subito'') \<and>
   membri_ids_of (store naval_first_state) 1 ''@naval'' = [] \<and>
   membri_ids_of (store naval_first_state) 1 ''@aero'' = [42] \<and>
   outbox naval_first_state = [] \<and>
   gestore_messaggi ascii_lower (sample_update ''serve @aero e @naval subito'' None)
       (sample_context None) naval_first_state
     = (Returned, naval_first_state)"
  by (simp add: sample_defs scanner_eval)

text \<open>
  C4, amended. For a message with text \<open>t\<close>, the department that the scanner selects is
  the first name, in the order in which the store returns the names of the chat, that
  occurs in the lower-cased text. The scanner sends at most one reply, and a reply it
  sends is the call for the selected department (the bell, \<open>Chiamata per <name>:\<close>, a
  newline and the mention links joined by spaces, as Markdown), never one for a later
  name that occurs too. When the text is not empty, the database answers and the selected
  name is not empty, that reply is sent exactly when the department has a member.
\<close>

theorem tag_scanner_first_match:
  assumes "upd_message u = Some m" and "msg_text m = Some t"
  shows
    "(\<forall>d. scan_reparti (reparti_of (store st) (chat_id m)) (lower t) = Some d \<longleftrightarrow>
        (\<exists>i < length (reparti_of (store st) (chat_id m)).
            reparti_of (store st) (chat_id m) ! i = d \<and> sublist d (lower t) \<and>
            (\<forall>j < i. \<not> sublist (reparti_of (store st) (chat_id m) ! j) (lower t)))) \<and>
     (outbox (snd (gestore_messaggi lower u ctx st)) = outbox st \<or>
      (\<exists>d. scan_reparti (reparti_of (store st) (chat_id m)) (lower t) = Some d \<and>
           outbox (snd (gestore_messaggi lower u ctx st)) = outbox st @
             [([CHR 0xF0, CHR 0x9F, CHR 0x94, CHR 0x94] @ '' Chiamata per '' @ d @ '':'' @ [CHR 0x0A] @
              join '' '' (map (\<lambda>uid. ''['' @ [CHR 0xE2, CHR 0x80, CHR 0x8B] @ ''](tg://user?id=''
                                   @ str_int uid @ '')'') (membri_ids_of (store st) (chat_id m) d)), Some ''Markdown'')])) \<and>
     (\<forall>d. t \<noteq> [] \<and> reachable (store st) \<and> tables_ready (store st) \<and>
          scan_reparti (reparti_of (store st) (chat_id m)) (lower t) = Some d \<and> d \<noteq> [] \<longrightarrow>
        outbox (snd (gestore_messaggi lower u ctx st)) =
          (if membri_ids_of (store st) (chat_id m) d = [] then outbox st
           else outbox st @
             [([CHR 0xF0, CHR 0x9F, CHR 0x94, CHR 0x94] @ '' Chiamata per '' @ d @ '':'' @ [CHR 0x0A] @
              join '' '' (map (\<lambda>uid. ''['' @ [CHR 0xE2, CHR 0x80, CHR 0x8B] @ ''](tg://user?id=''
                                   @ str_int uid @ '')'') (membri_ids_of (store st) (chat_id m) d)), Some ''Markdown'')]))"
proof (intro conjI allI)
  fix d
  show "scan_reparti (reparti_of (store st) (chat_id m)) (lower t) = Some d \<longleftrightarrow>
        (\<exists>i < length (reparti_of (store st) (chat_id m)).
            reparti_of (store st) (chat_id m) ! i = d \<and> sublist d (lower t) \<and>
            (\<forall>j < i. \<not> sublist (reparti_of (store st) (chat_id m) ! j) (lower t)))"
    by (rule scan_reparti_Some)
next
  show "outbox (snd (gestore_messaggi lower u ctx st)) = outbox st \<or>
      (\<exists>d. scan_reparti (reparti_of (store st) (chat_id m)) (lower t) = Some d \<and>
           outbox (snd (gestore_messaggi lower u ctx st)) = outbox st @
             [([CHR 0xF0, CHR 0x9F, CHR 0x94, CHR 0x94] @ '' Chiamata per '' @ d @ '':'' @ [CHR 0x0A] @
              join '' '' (map (\<lambda>uid. ''['' @ [CHR 0xE2, CHR 0x80, CHR 0x8B] @ ''](tg://user?id=''
                                   @ str_int uid @ '')'') (membri_ids_of (store st) (chat_id m) d)), Some ''Markdown'')])"
    by (simp add: gestore_messaggi_text [OF assms] reply_text_markdown_def
          msg_chiamata_text split: option.splits)
next
  fix d
  show "t \<noteq> [] \<and> reachable (store st) \<and> tables_ready (store st) \<and>
          scan_reparti (reparti_of (store st) (chat_id m)) (lower t) = Some d \<and> d \<noteq> [] \<longrightarrow>
        outbox (snd (gestore_messaggi lower u ctx st)) =
          (if membri_ids_of (store st) (chat_id m) d = [] then outbox st
           else outbox st @
             [([CHR 0xF0, CHR 0x9F, CHR 0x94, CHR 0x94] @ '' Chiamata per '' @ d @ '':'' @ [CHR 0x0A] @
              join '' '' (map (\<lambda>uid. ''['' @ [CHR 0xE2, CHR 0x80, CHR 0x8B] @ ''](tg://user?id=''
                                   @ str_int uid @ '')'') (membri_ids_of (store st) (chat_id m) d)), Some ''Markdown'')])"
    by (simp add: gestore_messaggi_text [OF assms] reply_text_markdown_def msg_chiamata_text)
qed

theorem tag_scanner_first_match_witness:
  "upd_message (sample_update ''serve @naval e @AERO subito'' None)
     = Some (sample_message ''serve @naval e @AERO subito'' None) \<and>
   msg_text (sample_message ''serve @naval e @AERO subito'' None)
     = Some ''serve @naval e @AERO subito'' \<and>
   reparti_of (store sample_state) 1 = [''@aero'', ''@naval''] \<and>
   scan_reparti [''@aero'', ''@naval''] (ascii_lower ''serve @naval e @AERO subito'')
     = Some ''@aero'' \<and>
   membri_ids_of (store sample_state) 1 ''@aero'' = [42, 7] \<and>
   outbox (snd (gestore_messaggi ascii_lower (sample_update ''serve @naval e @AERO subito'' None)
                  (sample_context None) sample_state))
     = [([CHR 0xF0, CHR 0x9F, CHR 0x94, CHR 0x94] @ '' Chiamata per @aero:'' @ [CHR 0x0A] @
         ''['' @ [CHR 0xE2, CHR 0x80, CHR 0x8B] @ ''](tg://user?id=42) ['' @
         [CHR 0xE2, CHR 0x80, CHR 0x8B] @ ''](tg://user?id=7)'', Some ''Markdown'')] \<and>
   scan_reparti (reparti_of (store naval_first_state) 1)
       (ascii_lower ''serve @aero e @naval subito'') = Some ''@naval'' \<and>
   outbox (snd (gestore_messaggi ascii_lower (sample_update ''serve @aero e @naval subito'' None)
                  (sample_context None) naval_first_state)) = []"
  using
    tag_scanner_first_match
      [where lower = ascii_lower
         and u = "sample_update ''serve @naval e @AERO subito'' None"
         and m = "sample_message ''serve @naval e @AERO subito'' None"
         and t = "''serve @naval e @AERO subito''"
         and st = sample_state and ctx = "sample_context None"]
    tag_scanner_first_match
      [where lower = ascii_lower
         and u = "sample_update ''serve @aero e @naval subito'' None"
         and m = "sample_message ''serve @aero e @naval subito'' None"
         and t = "''serve @aero e @naval subito''"
         and st = naval_first_state and ctx = "sample_context None"]
  by (simp add: sample_defs scanner_eval msg_chiamata_def mention_def nl_def
        str_int_42 str_int_7)


section \<open>No match, or nobody to call: no reply\<close>

text \<open>
  C8. For a message with text, when no name registered for the chat occurs in the
  lower-cased text (the text that the scanner searches), \<open>gestore_messaggi\<close> returns
  with the state as it was: nothing is sent. The same holds when the selected department
  has no member row. Both hold whatever the condition of the database.
\<close>

theorem no_match_or_no_members_no_reply:
  assumes "upd_message u = Some m" and "msg_text m = Some t"
  shows
    "((\<forall>n \<in> set (reparti_of (store st) (chat_id m)). \<not> sublist n (lower t)) \<longrightarrow>
        gestore_messaggi lower u ctx st = (Returned, st)) \<and>
     (\<forall>d. scan_reparti (reparti_of (store st) (chat_id m)) (lower t) = Some d \<and>
          membri_ids_of (store st) (chat_id m) d = [] \<longrightarrow>
        gestore_messaggi lower u ctx st = (Returned, st))"
proof (intro conjI allI impI)
  assume "\<forall>n \<in> set (reparti_of (store st) (chat_id m)). \<not> sublist n (lower t)"
  then have "scan_reparti (reparti_of (store st) (chat_id m)) (lower t) = None"
    by (simp add: scan_reparti_None)
  then show "gestore_messaggi lower u ctx st = (Returned, st)"
    by (simp add: gestore_messaggi_text [OF assms])
next
  fix d
  assume "scan_reparti (reparti_of (store st) (chat_id m)) (lower t) = Some d \<and>
          membri_ids_of (store st) (chat_id m) d = []"
  then show "gestore_messaggi lower u ctx st = (Returned, st)"
    by (simp add: gestore_messaggi_text [OF assms])
qed

theorem no_match_or_no_members_no_reply_witness:
  "upd_message (sample_update ''ciao a tutti'' None) = Some (sample_message ''ciao a tutti'' None) \<and>
   msg_text (sample_message ''ciao a tutti'' None) = Some ''ciao a tutti'' \<and>
   list_all (\<lambda>n. \<not> sublist n (ascii_lower ''ciao a tutti'')) (reparti_of (store sample_state) 1) \<and>
   scan_reparti (reparti_of (store sample_state) 1) (ascii_lower ''ciao a tutti'') = None \<and>
   gestore_messaggi ascii_lower (sample_update ''ciao a tutti'' None) (sample_context None) sample_state
     = (Returned, sample_state) \<and>
   scan_reparti (reparti_of (store sample_state) 1) (ascii_lower ''Serve @Naval'') = Some ''@naval'' \<and>
   membri_ids_of (store sample_state) 1 ''@naval'' = [] \<and>
   gestore_messaggi ascii_lower (sample_update ''Serve @Naval'' None) (sample_context None) sample_state
     = (Returned, sample_state)"
  using
    no_match_or_no_members_no_reply
      [where lower = ascii_lower and u = "sample_update ''ciao a tutti'' None"
         and m = "sample_message ''ciao a tutti'' None" and t = "''ciao a tutti''"
         and st = sample_state and ctx = "sample_context None"]
    no_match_or_no_members_no_reply
      [where lower = ascii_lower and u = "sample_update ''Serve @Naval'' None"
         and m = "sample_message ''Serve @Naval'' None" and t = "''Serve @Naval''"
         and st = sample_state and ctx = "sample_context None"]
  by (simp add: sample_defs scanner_eval py_in_sublist [symmetric])


section \<open>Facts about the command handlers\<close>

lemma is_admin_True: "fst (is_admin m ctx st) \<Longrightarrow> is_admin m ctx st' = (True, st')"
  by (auto simp add: is_admin_def split: if_splits option.splits)

lemma count_list_distinct: "distinct xs \<Longrightarrow> count_list xs x = (if x \<in> set xs then 1 else 0)"
  by (induction xs) auto

lemma find_pair_None: "find (\<lambda>r. fst r = c \<and> snd r = n) rs = None \<longleftrightarrow> (c, n) \<notin> set rs"
  by (auto simp add: find_None_iff)

lemma righe_membri_concat:
  "righe_membri messaggio ms =
     messaggio @ concat (map (\<lambda>(uid, uname).
        ''- '' @ str_opt uname @ '' ([ID: '' @ str_int uid @ ''])'' @ nl) ms)"
  by (induction messaggio ms rule: righe_membri.induct) simp_all

lemma crea_reparto_ok:
  assumes "upd_message u = Some m" and "fst (is_admin m ctx st)"
    and "args ctx = Some (a # rest)" and "startswith (lower a) ''@''"
    and "reachable (store st)" and "tables_ready (store st)"
  shows "crea_reparto lower u ctx st =
    (Returned,
     reply_text (msg_creato (lower a))
       (st\<lparr>store := (store st)\<lparr>reparti :=
          (if (chat_id m, lower a) \<in> set (reparti (store st)) then reparti (store st)
           else reparti (store st) @ [(chat_id m, lower a)])\<rparr>\<rparr>))"
proof -
  have adm: "is_admin m ctx st = (True, st)"
    using assms(2) by (rule is_admin_True)
  have "crea_reparto_try lower m ctx st =
      (Returned, Bound (lower a), Bound (get_db_connection (store st)),
       reply_text (msg_creato (lower a))
         (st\<lparr>store := (store st)\<lparr>reparti :=
            (if (chat_id m, lower a) \<in> set (reparti (store st)) then reparti (store st)
             else reparti (store st) @ [(chat_id m, lower a)])\<rparr>\<rparr>))"
    using assms(3-6)
    by (simp add: crea_reparto_try_def get_db_connection_def insert_reparto_def commit_def Let_def)
  with assms(1,5) adm show ?thesis
    by (simp add: crea_reparto_def crea_reparto_except_def finally_close_def
          get_db_connection_def)
qed


lemmas crea_eval = crea_reparto_def crea_reparto_try_def crea_reparto_except_def
  finally_close_def is_admin_def get_db_connection_def insert_reparto_def commit_def
  reply_text_def msg_creato_def ascii_lower_eval Let_def

section \<open>Creating a department twice\<close>

text \<open>
  C5. When \<open>crea_reparto\<close> is run twice by an authorized user with the same name
  (starting with \<open>@\<close> once lower-cased) on a database that answers and whose \<open>reparti\<close>
  rows are distinct (the primary key), both runs return and reply that the department
  was created, the second run leaves the store as the first left it, and the table holds
  exactly one row for the chat and the lower-cased name.
\<close>

theorem crea_reparto_idempotent:
  assumes "upd_message u = Some m" and "fst (is_admin m ctx st)"
    and "args ctx = Some (a # rest)" and "startswith (lower a) ''@''"
    and "reachable (store st)" and "tables_ready (store st)"
    and "distinct (reparti (store st))"
  shows
    "fst (crea_reparto lower u ctx st) = Returned \<and>
     outbox (snd (crea_reparto lower u ctx st)) =
       outbox st @ [(''Reparto '' @ lower a @ '' creato con successo!'', None)] \<and>
     fst (crea_reparto lower u ctx (snd (crea_reparto lower u ctx st))) = Returned \<and>
     outbox (snd (crea_reparto lower u ctx (snd (crea_reparto lower u ctx st)))) =
       outbox st @ [(''Reparto '' @ lower a @ '' creato con successo!'', None),
                    (''Reparto '' @ lower a @ '' creato con successo!'', None)] \<and>
     store (snd (crea_reparto lower u ctx (snd (crea_reparto lower u ctx st)))) =
       store (snd (crea_reparto lower u ctx st)) \<and>
     count_list (reparti (store (snd (crea_reparto lower u ctx (snd (crea_reparto lower u ctx st))))))
       (chat_id m, lower a) = 1"
proof -
  define st1 where "st1 = snd (crea_reparto lower u ctx st)"
  have first: "crea_reparto lower u ctx st =
    (Returned,
     reply_text (msg_creato (lower a))
       (st\<lparr>store := (store st)\<lparr>reparti :=
          (if (chat_id m, lower a) \<in> set (reparti (store st)) then reparti (store st)
           else reparti (store st) @ [(chat_id m, lower a)])\<rparr>\<rparr>))"
    using assms(1-6) by (rule crea_reparto_ok)
  have st1: "st1 = reply_text (msg_creato (lower a))
       (st\<lparr>store := (store st)\<lparr>reparti :=
          (if (chat_id m, lower a) \<in> set (reparti (store st)) then reparti (store st)
           else reparti (store st) @ [(chat_id m, lower a)])\<rparr>\<rparr>)"
    by (simp add: st1_def first)
  have adm1: "fst (is_admin m ctx st1)"
    using is_admin_True [OF assms(2), of st1] by simp
  have up1: "reachable (store st1)" "tables_ready (store st1)"
    using assms(5,6) by (simp_all add: st1 reply_text_def)
  have in1: "(chat_id m, lower a) \<in> set (reparti (store st1))"
    by (simp add: st1 reply_text_def)
  have dist1: "distinct (reparti (store st1))"
    using assms(7) by (simp add: st1 reply_text_def)
  have "crea_reparto lower u ctx st1 =
    (Returned,
     reply_text (msg_creato (lower a))
       (st1\<lparr>store := (store st1)\<lparr>reparti :=
          (if (chat_id m, lower a) \<in> set (reparti (store st1)) then reparti (store st1)
           else reparti (store st1) @ [(chat_id m, lower a)])\<rparr>\<rparr>))"
    using assms(1) adm1 assms(3,4) up1 by (rule crea_reparto_ok)
  with in1 have second: "crea_reparto lower u ctx st1 = (Returned, reply_text (msg_creato (lower a)) st1)"
    by simp
  have cnt: "count_list (reparti (store st1)) (chat_id m, lower a) = 1"
    using dist1 in1 by (simp add: count_list_distinct)
  have out1: "outbox st1 = outbox st @ [(''Reparto '' @ lower a @ '' creato con successo!'', None)]"
    by (simp add: st1 reply_text_def msg_creato_def)
  have "fst (crea_reparto lower u ctx st) = Returned"
    by (simp add: first)
  moreover have "fst (crea_reparto lower u ctx st1) = Returned"
    by (simp add: second)
  moreover have "outbox (snd (crea_reparto lower u ctx st1)) =
       outbox st @ [(''Reparto '' @ lower a @ '' creato con successo!'', None),
                    (''Reparto '' @ lower a @ '' creato con successo!'', None)]"
    by (simp add: second out1 reply_text_def msg_creato_def)
  moreover have "store (snd (crea_reparto lower u ctx st1)) = store st1"
    by (simp add: second reply_text_def)
  moreover have "count_list (reparti (store (snd (crea_reparto lower u ctx st1)))) (chat_id m, lower a) = 1"
    using cnt by (simp add: second reply_text_def)
  ultimately show ?thesis
    using out1 unfolding st1_def by simp
qed

theorem crea_reparto_idempotent_witness:
  "upd_message (sample_update ''/crea_reparto @Space'' None)
     = Some (sample_message ''/crea_reparto @Space'' None) \<and>
   fst (is_admin (sample_message ''/crea_reparto @Space'' None)
          (sample_context (Some [''@Space''])) sample_state) \<and>
   args (sample_context (Some [''@Space''])) = Some [''@Space''] \<and>
   startswith (ascii_lower ''@Space'') ''@'' \<and>
   reachable (store sample_state) \<and> tables_ready (store sample_state) \<and>
   distinct (reparti (store sample_state)) \<and>
   reparti (store (snd (crea_reparto ascii_lower (sample_update ''/crea_reparto @Space'' None)
       (sample_context (Some [''@Space'']))
       (snd (crea_reparto ascii_lower (sample_update ''/crea_reparto @Space'' None)
          (sample_context (Some [''@Space''])) sample_state)))))
     = [(1, ''@aero''), (1, ''@naval''), (2, ''@staff''), (1, ''@space'')] \<and>
   count_list (reparti (store (snd (crea_reparto ascii_lower (sample_update ''/crea_reparto @Space'' None)
       (sample_context (Some [''@Space'']))
       (snd (crea_reparto ascii_lower (sample_update ''/crea_reparto @Space'' None)
          (sample_context (Some [''@Space''])) sample_state)))))) (1, ascii_lower ''@Space'') = 1"
  using crea_reparto_idempotent
    [where lower = ascii_lower and u = "sample_update ''/crea_reparto @Space'' None"
       and m = "sample_message ''/crea_reparto @Space'' None"
       and ctx = "sample_context (Some [''@Space''])" and st = sample_state
       and a = "''@Space''" and rest = "[]"]
  by (simp add: sample_defs crea_eval)

section \<open>Letter case\<close>








section \<open>Adding a member to a department that does not exist\<close>

lemma aggiungi_membro_try_missing:
  assumes "args ctx = Some (a # rest)" and "(chat_id m, lower a) \<notin> set (reparti (store st))"
  shows "aggiungi_membro_try lower m utente ctx st =
    (if \<not> reachable (store st) then (Raised AttributeError, Bound None, st)
     else if \<not> tables_ready (store st)
       then (Raised DatabaseError, Bound (get_db_connection (store st)), st)
     else (Returned, Bound (get_db_connection (store st)),
           reply_text (msg_non_esiste (lower a)) st))"
  using assms
  by (simp add: aggiungi_membro_try_def get_db_connection_def select_reparto_def
        find_pair_None [THEN iffD2] Let_def)

lemma is_admin_store: "store (snd (is_admin m ctx st)) = store st"
  by (simp add: is_admin_def reply_text_def split: option.splits)

lemmas aggiungi_eval = aggiungi_membro_def aggiungi_membro_try_def except_clauses_def
  finally_close_def is_admin_def get_db_connection_def select_reparto_def insert_membro_def
  same_key_def commit_def reply_text_def msg_non_esiste_def ascii_lower_eval Let_def

text \<open>
  C6. When the table \<open>reparti\<close> has no row for the chat and the lower-cased name given to
  \<open>aggiungi_membro\<close>, the command leaves the store as it was, on every path. When moreover
  the user is authorized, the command answers a message, and the database answers, the
  command returns after one reply: that the department does not exist and is to be
  created first with \<open>/crea_reparto\<close>.
\<close>

theorem aggiungi_membro_missing_reparto:
  assumes "upd_message u = Some m" and "args ctx = Some (a # rest)"
    and "(chat_id m, lower a) \<notin> set (reparti (store st))"
  shows
    "store (snd (aggiungi_membro lower u ctx st)) = store st \<and>
     (\<forall>utente. fst (is_admin m ctx st) \<and> reply_to_message m = Some utente \<and>
          reachable (store st) \<and> tables_ready (store st) \<longrightarrow>
        aggiungi_membro lower u ctx st =
          (Returned,
           st\<lparr>outbox := outbox st @
             [(''Il reparto '' @ lower a @ '' non esiste. Crealo prima con /crea_reparto ''
                 @ lower a, None)]\<rparr>))"
proof (intro conjI allI impI)
  let ?st1 = "snd (is_admin m ctx st)"
  have miss1: "(chat_id m, lower a) \<notin> set (reparti (store ?st1))"
    using assms(3) by (simp add: is_admin_store)
  have try1: "store (snd (snd (aggiungi_membro_try lower m utente ctx ?st1))) = store ?st1"
    for utente
    by (simp add: aggiungi_membro_try_missing [where lower = lower, OF assms(2) miss1] reply_text_def)
  show "store (snd (aggiungi_membro lower u ctx st)) = store st"
  proof (cases "fst (is_admin m ctx st)")
    case False
    with assms(1) show ?thesis
      by (simp add: aggiungi_membro_def case_prod_beta reply_text_def is_admin_store)
  next
    case True
    show ?thesis
    proof (cases "reply_to_message m")
      case None
      with assms(1) True show ?thesis
        by (simp add: aggiungi_membro_def case_prod_beta reply_text_def is_admin_store)
    next
      case (Some utente)
      have "store (snd (except_clauses msg_uso_aggiungi out s)) = store s" for out s
        by (simp add: except_clauses_def reply_text_def split: outcome.splits)
      with assms(1) True Some try1 [of utente] show ?thesis
        by (simp add: aggiungi_membro_def case_prod_beta is_admin_store)
    qed
  qed
next
  fix utente
  assume h: "fst (is_admin m ctx st) \<and> reply_to_message m = Some utente \<and>
          reachable (store st) \<and> tables_ready (store st)"
  then have "fst (is_admin m ctx st)"
    by simp
  then have adm: "is_admin m ctx st = (True, st)"
    by (rule is_admin_True)
  from h have "aggiungi_membro_try lower m utente ctx st =
      (Returned, Bound (get_db_connection (store st)), reply_text (msg_non_esiste (lower a)) st)"
    by (simp add: aggiungi_membro_try_missing [where lower = lower, OF assms(2,3)])
  with assms(1) h adm show "aggiungi_membro lower u ctx st =
          (Returned,
           st\<lparr>outbox := outbox st @
             [(''Il reparto '' @ lower a @ '' non esiste. Crealo prima con /crea_reparto ''
                 @ lower a, None)]\<rparr>)"
    by (simp add: aggiungi_membro_def except_clauses_def finally_close_def
          get_db_connection_def reply_text_def msg_non_esiste_def)
qed

theorem aggiungi_membro_missing_reparto_witness:
  "upd_message (sample_update ''/aggiungi_membro @Space'' (Some carl))
     = Some (sample_message ''/aggiungi_membro @Space'' (Some carl)) \<and>
   args (sample_context (Some [''@Space''])) = Some [''@Space''] \<and>
   (1, ascii_lower ''@Space'') \<notin> set (reparti (store sample_state)) \<and>
   fst (is_admin (sample_message ''/aggiungi_membro @Space'' (Some carl))
          (sample_context (Some [''@Space''])) sample_state) \<and>
   reply_to_message (sample_message ''/aggiungi_membro @Space'' (Some carl)) = Some carl \<and>
   reachable (store sample_state) \<and> tables_ready (store sample_state) \<and>
   aggiungi_membro ascii_lower (sample_update ''/aggiungi_membro @Space'' (Some carl))
       (sample_context (Some [''@Space''])) sample_state
     = (Returned,
        sample_state\<lparr>outbox :=
          [(''Il reparto @space non esiste. Crealo prima con /crea_reparto @space'', None)]\<rparr>)"
  using aggiungi_membro_missing_reparto
    [where lower = ascii_lower and u = "sample_update ''/aggiungi_membro @Space'' (Some carl)"
       and m = "sample_message ''/aggiungi_membro @Space'' (Some carl)"
       and ctx = "sample_context (Some [''@Space''])" and a = "''@Space''" and rest = "[]"
       and st = sample_state]
  by (simp add: sample_defs aggiungi_eval)

lemmas lista_eval = lista_reparto_def lista_reparto_try_def except_clauses_def
  finally_close_def get_db_connection_def select_membri_def reply_text_def
  str_opt_def nl_def str_int_42 str_int_7 ascii_lower_eval Let_def

section \<open>The lines of \<open>lista_reparto\<close>\<close>

text \<open>
  C3, as stated, fails. For the department \<open>@aero\<close> with the members Bob (42) and Eve (7)
  the reply is the header and the lines \<open>- Bob ([ID: 42])\<close> and \<open>- Eve ([ID: 7])\<close>; the
  line \<open>- Bob (ID: 42)\<close> of the specification occurs nowhere in it.
\<close>

theorem lista_reparto_line_format_counterexample:
  "lista_reparto ascii_lower (sample_update ''/lista_reparto @aero'' None)
       (sample_context (Some [''@aero''])) sample_state
     = (Returned,
        sample_state\<lparr>outbox :=
          [(''Membri del reparto @aero:'' @ [CHR 0x0A] @ ''- Bob ([ID: 42])'' @ [CHR 0x0A]
              @ ''- Eve ([ID: 7])'' @ [CHR 0x0A], None)]\<rparr>) \<and>
   spec_riga ''Bob'' 42 = ''- Bob (ID: 42)'' \<and>
   \<not> py_in (spec_riga ''Bob'' 42)
       (''Membri del reparto @aero:'' @ [CHR 0x0A] @ ''- Bob ([ID: 42])'' @ [CHR 0x0A]
          @ ''- Eve ([ID: 7])'' @ [CHR 0x0A])"
  by (simp add: sample_defs lista_eval spec_riga_def)

text \<open>
  C3, amended. For a department with at least one member row, on a database that
  answers, \<open>lista_reparto\<close> returns after one reply: the header
  \<open>Membri del reparto <name>:\<close> and then, for each member row in storage order, the line
  \<open>- <user_name> ([ID: <user_id>])\<close>, each line ended by a newline. The store is unchanged.
\<close>

theorem lista_reparto_lines:
  assumes "upd_message u = Some m" and "args ctx = Some (a # rest)"
    and "reachable (store st)" and "tables_ready (store st)"
    and "membri_of (store st) (chat_id m) (lower a) \<noteq> []"
  shows
    "lista_reparto lower u ctx st =
       (Returned,
        st\<lparr>outbox := outbox st @
          [(''Membri del reparto '' @ lower a @ '':'' @ [CHR 0x0A] @
            concat (map (\<lambda>(uid, uname).
                ''- '' @ str_opt uname @ '' ([ID: '' @ str_int uid @ ''])'' @ [CHR 0x0A])
              (membri_of (store st) (chat_id m) (lower a))), None)]\<rparr>)"
proof -
  have sel: "select_membri \<lparr>tx_ready = True, tx_reparti = reparti (store st),
        tx_membri = membri (store st)\<rparr> (chat_id m) (lower a)
      = Inr (membri_of (store st) (chat_id m) (lower a))"
    by (simp add: select_membri_def membri_of_def)
  have "lista_reparto_try lower m ctx st =
      (Returned, Bound (get_db_connection (store st)),
       reply_text (righe_membri (''Membri del reparto '' @ lower a @ '':'' @ nl)
          (membri_of (store st) (chat_id m) (lower a))) st)"
    using assms(2-5) by (simp add: lista_reparto_try_def get_db_connection_def sel Let_def)
  with assms(1,3) show ?thesis
    by (simp add: lista_reparto_def except_clauses_def finally_close_def
          get_db_connection_def reply_text_def righe_membri_concat nl_def)
qed

theorem lista_reparto_lines_witness:
  "upd_message (sample_update ''/lista_reparto @AERO'' None)
     = Some (sample_message ''/lista_reparto @AERO'' None) \<and>
   args (sample_context (Some [''@AERO''])) = Some [''@AERO''] \<and>
   reachable (store sample_state) \<and> tables_ready (store sample_state) \<and>
   membri_of (store sample_state) 1 (ascii_lower ''@AERO'') = [(42, Some ''Bob''), (7, Some ''Eve'')] \<and>
   lista_reparto ascii_lower (sample_update ''/lista_reparto @AERO'' None)
       (sample_context (Some [''@AERO''])) sample_state
     = (Returned,
        sample_state\<lparr>outbox :=
          [(''Membri del reparto @aero:'' @ [CHR 0x0A] @ ''- Bob ([ID: 42])'' @ [CHR 0x0A]
              @ ''- Eve ([ID: 7])'' @ [CHR 0x0A], None)]\<rparr>)"
  using lista_reparto_lines
    [where lower = ascii_lower and u = "sample_update ''/lista_reparto @AERO'' None"
       and m = "sample_message ''/lista_reparto @AERO'' None"
       and ctx = "sample_context (Some [''@AERO''])" and a = "''@AERO''" and rest = "[]"
       and st = sample_state]
  by (simp add: sample_defs membri_of_def lista_eval)

lemmas rimuovi_eval = rimuovi_membro_def rimuovi_membro_try_def except_clauses_def
  finally_close_def is_admin_def get_db_connection_def delete_membro_def new_cursor_def
  same_key_def commit_def reply_text_def msg_rimosso_def msg_non_era_def ascii_lower_eval Let_def

section \<open>Removing a user who is not a member\<close>

text \<open>
  Whenever \<open>rimuovi_membro\<close> gets as far as the \<open>DELETE\<close>, its reply is the one of a
  removal, whether a row was deleted or not.
\<close>

lemma rimuovi_membro_reply_always_rimosso:
  assumes "upd_message u = Some m" and "fst (is_admin m ctx st)"
    and "reply_to_message m = Some utente" and "args ctx = Some (a # rest)"
    and "reachable (store st)" and "tables_ready (store st)"
  shows "fst (rimuovi_membro lower u ctx st) = Returned \<and>
    outbox (snd (rimuovi_membro lower u ctx st)) =
      outbox st @ [(msg_rimosso (full_name utente) (lower a), None)]"
proof -
  have adm: "is_admin m ctx st = (True, st)"
    using assms(2) by (rule is_admin_True)
  with assms(1,3-6) show ?thesis
    by (simp add: rimuovi_membro_def rimuovi_membro_try_def except_clauses_def
          finally_close_def get_db_connection_def delete_membro_def new_cursor_def
          reply_text_def Let_def)
qed

text \<open>
  C1 does not hold of the code. Carl (99) has no row in \<open>membri\<close> for \<open>@aero\<close>; the
  \<open>DELETE\<close> removes nothing and its cursor reports a row count of 0. \<open>rimuovi_membro\<close>
  still replies that Carl was removed, the reply of a successful removal, because the row
  count it tests is that of a new cursor (-1). The store is unchanged.
\<close>

theorem rimuovi_membro_non_member_reply:
  "filter (same_key 1 ''@aero'' 99) (membri (store sample_state)) = [] \<and>
   delete_membro \<lparr>tx_ready = True, tx_reparti = reparti (store sample_state),
                   tx_membri = membri (store sample_state)\<rparr> 1 ''@aero'' 99
     = Inr (\<lparr>tx_ready = True, tx_reparti = reparti (store sample_state),
              tx_membri = membri (store sample_state)\<rparr>, \<lparr>rowcount = 0\<rparr>) \<and>
   rimuovi_membro ascii_lower (sample_update ''/rimuovi_membro @aero'' (Some carl))
       (sample_context (Some [''@aero''])) sample_state
     = (Returned, sample_state\<lparr>outbox := [(''Utente Carl rimosso da @aero.'', None)]\<rparr>) \<and>
   rimuovi_membro ascii_lower (sample_update ''/rimuovi_membro @aero'' (Some bob))
       (sample_context (Some [''@aero''])) sample_state
     = (Returned, sample_state\<lparr>store := sample_db\<lparr>membri := [(1, ''@aero'', 7, Some ''Eve'')]\<rparr>,
                               outbox := [(''Utente Bob rimosso da @aero.'', None)]\<rparr>) \<and>
   msg_non_era ''Carl'' ''@aero'' = ''L'' @ [CHR 0x27] @ ''utente Carl non era in @aero.''"
  by (simp add: sample_defs rimuovi_eval)

lemmas usage_eval = crea_reparto_def crea_reparto_try_def crea_reparto_except_def
  lista_reparto_def lista_reparto_try_def aggiungi_membro_def aggiungi_membro_try_def
  rimuovi_membro_def rimuovi_membro_try_def except_clauses_def finally_close_def
  is_admin_def reply_text_def msg_uso_crea_def msg_uso_lista_def msg_uso_aggiungi_def
  msg_uso_rimuovi_def msg_formato_errato_def ascii_lower_eval Let_def

section \<open>The usage reply and the cleanup after it\<close>

text \<open>
  Without a first argument the \<open>try\<close> is left before \<open>conn\<close> is assigned, whatever the
  update and the state.
\<close>

lemma lista_reparto_no_argument:
  assumes "upd_message u = Some m" and "args ctx = None \<or> args ctx = Some []"
  shows "lista_reparto lower u ctx st = (Raised UnboundLocalError, reply_text msg_uso_lista st)"
  using assms
  by (auto simp add: lista_reparto_def lista_reparto_try_def except_clauses_def
        finally_close_def)

lemma crea_reparto_no_argument:
  assumes "upd_message u = Some m" and "fst (is_admin m ctx st)"
    and "args ctx = None \<or> args ctx = Some []"
  shows "crea_reparto lower u ctx st = (Raised UnboundLocalError, reply_text msg_uso_crea st)"
proof -
  have "is_admin m ctx st = (True, st)"
    using assms(2) by (rule is_admin_True)
  with assms(1,3) show ?thesis
    by (auto simp add: crea_reparto_def crea_reparto_try_def crea_reparto_except_def
          finally_close_def)
qed

text \<open>
  C2 does not hold of the code. With an empty argument list \<open>crea_reparto\<close> and
  \<open>lista_reparto\<close> send their usage reply and then raise \<open>UnboundLocalError\<close>: the
  \<open>finally\<close> clause reads \<open>conn\<close>, which is assigned only after the argument was read.
  \<open>aggiungi_membro\<close> and \<open>rimuovi_membro\<close> do the same.
\<close>

theorem usage_reply_then_unbound_conn:
  "crea_reparto ascii_lower (sample_update ''/crea_reparto'' None) (sample_context (Some [])) sample_state
     = (Raised UnboundLocalError,
        sample_state\<lparr>outbox := [(''Uso: /crea_reparto @nome_reparto'', None)]\<rparr>) \<and>
   lista_reparto ascii_lower (sample_update ''/lista_reparto'' None) (sample_context (Some [])) sample_state
     = (Raised UnboundLocalError,
        sample_state\<lparr>outbox := [(''Uso: /lista_reparto @nome_reparto'', None)]\<rparr>) \<and>
   aggiungi_membro ascii_lower (sample_update ''/aggiungi_membro'' (Some carl)) (sample_context (Some []))
       sample_state
     = (Raised UnboundLocalError,
        sample_state\<lparr>outbox :=
          [(''Uso: Rispondi a un utente con /aggiungi_membro @nome_reparto'', None)]\<rparr>) \<and>
   rimuovi_membro ascii_lower (sample_update ''/rimuovi_membro'' (Some carl)) (sample_context (Some []))
       sample_state
     = (Raised UnboundLocalError,
        sample_state\<lparr>outbox :=
          [(''Uso: Rispondi a un utente con /rimuovi_membro @nome_reparto'', None)]\<rparr>)"
  by (simp add: sample_defs usage_eval)

end
